theory Spec2Isabelle
  imports Main "HOL-Library.Sublist"
begin

section \<open>The calendar view of obsidian-full-calendar (src/view.ts)\<close>

subsection \<open>Files, events and the widget's event store\<close>

text \<open>
  The host's \<open>TAbstractFile\<close> is either a plain file (\<open>TFile\<close>) or a folder; the
  handlers test \<open>file instanceof TFile\<close> and read \<open>file.path\<close>.
\<close>

record TFile =
  path :: string

datatype TAbstractFile = File TFile | Folder string

text \<open>
  The widget's \<open>EventInput\<close> object. A key that an object literal may leave out
  (\<open>end\<close>, \<open>color\<close>, \<open>textColor\<close>) is an option: \<open>None\<close> is the absent key.
\<close>

record EventInput =
  event_id :: string
  title :: string
  start :: string
  end_date :: "string option"
  allDay :: bool
  color :: "string option"
  textColor :: "string option"

text \<open>
  The widget (\<open>Calendar\<close> of @fullcalendar/core) is consumed through three operations of
  its event store: \<open>getEventById\<close> returns the oldest event carrying the id,
  \<open>EventApi.remove\<close> takes that one event out of the store, \<open>addEvent\<close> parses its
  input and stores one more event (the store itself accepts several events with one id),
  or stores nothing and returns null when the input does not parse, as for a start that
  is no date. Which inputs parse is the widget's own matter: \<open>addEvent\<close> takes the
  verdict of the widget's parser as its first argument.
\<close>

type_synonym Calendar = "EventInput list"

definition getEventById :: "Calendar \<Rightarrow> string \<Rightarrow> EventInput option" where
  "getEventById cal i = find (\<lambda>e. event_id e = i) cal"

definition EventApi_remove :: "EventInput \<Rightarrow> Calendar \<Rightarrow> Calendar" where
  "EventApi_remove ev cal = remove1 ev cal"

definition addEvent :: "(EventInput \<Rightarrow> bool) \<Rightarrow> Calendar \<Rightarrow> EventInput \<Rightarrow> Calendar" where
  "addEvent parses cal e = (if parses e then cal @ [e] else cal)"

subsection \<open>Settings and environment\<close>

text \<open>
  \<open>CalendarSource\<close> of types.ts: a tagged union on \<open>type\<close> (\<open>"local"\<close>, \<open>"gcal"\<close>,
  \<open>"ical"\<close>), each with an optional colour.
\<close>

datatype CalendarSource =
    Local string "string option"
  | GCal string "string option"
  | ICal string "string option"

fun source_color :: "CalendarSource \<Rightarrow> string option" where
  "source_color (Local d c) = c"
| "source_color (GCal u c) = c"
| "source_color (ICal u c) = c"

record Settings =
  calendarSources :: "CalendarSource list"
  recursiveLocal :: bool

text \<open>
  What the metadata cache holds for a path: the event fields decoded from the document's
  front-matter, or \<open>None\<close> when the document does not describe an event.
\<close>

type_synonym MetadataCache = "string \<Rightarrow> EventInput option"

text \<open>
  The environment a handler runs in: the plugin's settings, the metadata cache, the two
  theme properties \<open>--interactive-accent\<close> and \<open>--text-on-accent\<close> of the document body,
  and the widget's parser \<open>parseEvent\<close>, as the verdict whether an input yields an event.
\<close>

record Env =
  settings :: Settings
  metadataCache :: MetadataCache
  interactive_accent :: string
  text_on_accent :: string
  parseEvent :: "EventInput \<Rightarrow> bool"

text \<open>
  Modelled from the spec: \<open>getEventInputFromFile\<close> of crud.ts is not part of the sources
  at hand. The spec gives an event record the identity of its backing document (its path)
  and lets decoding yield null for a document that is not an event; the remaining fields
  are whatever the cache decoded.
\<close>

definition getEventInputFromFile :: "MetadataCache \<Rightarrow> TFile \<Rightarrow> EventInput option" where
  "getEventInputFromFile cache file =
     (case cache (path file) of
        None \<Rightarrow> None
      | Some r \<Rightarrow> Some (r\<lparr>event_id := path file\<rparr>))"

subsection \<open>The view and its notification handlers\<close>

record CalendarView =
  calendar :: "Calendar option"
  calendarEl_textContent :: "string option"

text \<open>JavaScript's \<open>a || b\<close> on an optional string: undefined, null and \<open>""\<close> are falsy.\<close>

definition js_or :: "string option \<Rightarrow> string \<Rightarrow> string" where
  "js_or a b = (case a of None \<Rightarrow> b | Some s \<Rightarrow> if s = [] then b else s)"

text \<open>The predicate of the lookup: \<open>c.type === "local" && file.path.startsWith(c.directory)\<close>.\<close>

fun local_source_of :: "string \<Rightarrow> CalendarSource \<Rightarrow> bool" where
  "local_source_of p (Local d c) = prefix d p"
| "local_source_of p (GCal u c) = False"
| "local_source_of p (ICal u c) = False"

text \<open>
  The object literal \<open>{color: c, textColor: t, ...newEventData}\<close>: the spread comes last,
  so a key that \<open>newEventData\<close> carries wins over the default written before it.
\<close>

definition spread_over_defaults :: "string \<Rightarrow> string \<Rightarrow> EventInput \<Rightarrow> EventInput" where
  "spread_over_defaults c t newEventData =
     newEventData\<lparr>color := (case color newEventData of None \<Rightarrow> Some c | Some x \<Rightarrow> Some x),
                  textColor := (case textColor newEventData of None \<Rightarrow> Some t | Some x \<Rightarrow> Some x)\<rparr>"

text \<open>
  \<open>onCacheUpdate\<close> (lines 50-73). \<open>this.calendar?.m(...)\<close> does nothing while
  \<open>this.calendar\<close> is null.
\<close>

definition onCacheUpdate :: "Env \<Rightarrow> CalendarView \<Rightarrow> TFile \<Rightarrow> CalendarView" where
  "onCacheUpdate env this file =
     (let calendar_source = find (local_source_of (path file)) (calendarSources (settings env));
          calendarEvent = (case calendar this of None \<Rightarrow> None
                           | Some cal \<Rightarrow> getEventById cal (path file));
          newEventData = getEventInputFromFile (metadataCache env) file
      in case calendar_source of
           None \<Rightarrow> this
         | Some src \<Rightarrow>
             (case newEventData of
                None \<Rightarrow> this
              | Some d \<Rightarrow>
                  (let this1 = (case calendarEvent of
                                  None \<Rightarrow> this
                                | Some ev \<Rightarrow>
                                    this\<lparr>calendar := map_option (EventApi_remove ev) (calendar this)\<rparr>)
                   in this1\<lparr>calendar :=
                        map_option
                          (\<lambda>cal. addEvent (parseEvent env) cal
                             (spread_over_defaults
                                (js_or (source_color src) (interactive_accent env))
                                (text_on_accent env) d))
                          (calendar this1)\<rparr>)))"

text \<open>The handler registered for the vault's \<open>delete\<close> (lines 211-219).\<close>

definition onDelete :: "CalendarView \<Rightarrow> TAbstractFile \<Rightarrow> CalendarView" where
  "onDelete this file =
     (case file of
        Folder d \<Rightarrow> this
      | File f \<Rightarrow>
          (case (case calendar this of None \<Rightarrow> None | Some cal \<Rightarrow> getEventById cal (path f)) of
             None \<Rightarrow> this
           | Some ev \<Rightarrow> this\<lparr>calendar := map_option (EventApi_remove ev) (calendar this)\<rparr>))"

text \<open>The handler registered for the vault's \<open>rename\<close> (lines 222-232).\<close>

definition onRename :: "Env \<Rightarrow> CalendarView \<Rightarrow> TAbstractFile \<Rightarrow> string \<Rightarrow> CalendarView" where
  "onRename env this file oldPath =
     (let this1 =
            (case (case calendar this of None \<Rightarrow> None | Some cal \<Rightarrow> getEventById cal oldPath) of
               None \<Rightarrow> this
             | Some oldEvent \<Rightarrow>
                 this\<lparr>calendar := map_option (EventApi_remove oldEvent) (calendar this)\<rparr>)
      in case file of
           File f \<Rightarrow> onCacheUpdate env this1 f
         | Folder d \<Rightarrow> this1)"

text \<open>\<open>onClose\<close> (lines 240-245): destroy the widget and forget it.\<close>

definition onClose :: "CalendarView \<Rightarrow> CalendarView" where
  "onClose this =
     (case calendar this of
        None \<Rightarrow> this
      | Some cal \<Rightarrow> this\<lparr>calendar := None\<rparr>)"

text \<open>
  The three notifications of the host, and a run of the view over a sequence of them; each
  notification is handled in the environment (settings, cache contents) of its moment.
\<close>

datatype notification =
    MetadataChanged TFile
  | Deleted TAbstractFile
  | Renamed TAbstractFile string

fun handle :: "CalendarView \<Rightarrow> Env \<times> notification \<Rightarrow> CalendarView" where
  "handle this (env, MetadataChanged f) = onCacheUpdate env this f"
| "handle this (env, Deleted f) = onDelete this f"
| "handle this (env, Renamed f oldPath) = onRename env this f oldPath"

fun run :: "CalendarView \<Rightarrow> (Env \<times> notification) list \<Rightarrow> CalendarView" where
  "run this [] = this"
| "run this (n # ns) = run (handle this n) ns"

text \<open>The events of the in-memory model that carry a given identity.\<close>

definition eventsWithId :: "CalendarView \<Rightarrow> string \<Rightarrow> EventInput list" where
  "eventsWithId this p =
     (case calendar this of
        None \<Rightarrow> []
      | Some cal \<Rightarrow> filter (\<lambda>e. event_id e = p) cal)"


subsection \<open>Opening the view\<close>

text \<open>
  The widget's \<open>EventSourceInput\<close>: what \<open>getEventSourceFromLocalSource\<close> built for a
  local directory, or the literal \<open>{editable, googleCalendarId, textColor, color}\<close> written
  for a Google calendar.
\<close>

datatype 'l EventSourceInput =
    LocalEvents 'l
  | GoogleCalendar bool string string string

text \<open>
  JavaScript's \<open>!sources\<close> where \<open>sources\<close> is an array: an array is an object, and every
  object is truthy, the empty array included.
\<close>

definition js_not_array :: "'a list \<Rightarrow> bool" where
  "js_not_array xs = False"

text \<open>
  \<open>onOpen\<close> (lines 75-140) up to the creation of the widget. Its two collaborators are
  parameters: \<open>getEventSourceFromLocalSource\<close> (crud.ts; null when the source's directory
  is not a directory) applied to a source and the \<open>recursiveLocal\<close> flag, and
  \<open>renderCalendar\<close> (calendar.ts). \<open>filter\<close> on the type followed by \<open>map\<close> (and, for
  the local sources, by the filter on null) is one \<open>List.map_filter\<close> each.
\<close>

definition onOpen ::
  "(CalendarSource \<Rightarrow> bool \<Rightarrow> 'l option) \<Rightarrow> ('l EventSourceInput list \<Rightarrow> Calendar) \<Rightarrow>
   Env \<Rightarrow> CalendarView \<Rightarrow> CalendarView" where
  "onOpen getEventSourceFromLocalSource renderCalendar env this =
     (let sources =
            map LocalEvents
              (List.map_filter
                 (\<lambda>source. case source of
                      Local d c \<Rightarrow>
                        getEventSourceFromLocalSource source (recursiveLocal (settings env))
                    | GCal u c \<Rightarrow> None
                    | ICal u c \<Rightarrow> None)
                 (calendarSources (settings env)))
            @ List.map_filter
                (\<lambda>gcalSource. case gcalSource of
                     Local d c \<Rightarrow> None
                   | GCal u c \<Rightarrow>
                       Some (GoogleCalendar False u (text_on_accent env)
                               (js_or c (interactive_accent env)))
                   | ICal u c \<Rightarrow> None)
                (calendarSources (settings env))
      in if js_not_array sources
         then this\<lparr>calendarEl_textContent :=
                Some ''Error: the events directory was not a directory. Please change your events directory in settings.''\<rparr>
         else this\<lparr>calendar := Some (renderCalendar sources), calendarEl_textContent := None\<rparr>)"

subsection \<open>Edits made in the widget\<close>





subsection \<open>Notions of the specification\<close>

text \<open>
  Directory scope as the specification words it: a document lies within a directory when
  its path is the directory's path, a separator, and a path below it.
\<close>

definition lies_within_directory :: "string \<Rightarrow> string \<Rightarrow> bool" where
  "lies_within_directory d p = prefix (d @ ''/'') p"

text \<open>The model as the handlers leave it once the event carrying an identity is taken out.\<close>

definition without_event :: "string \<Rightarrow> Calendar \<Rightarrow> Calendar" where
  "without_event p cal =
     (case getEventById cal p of None \<Rightarrow> cal | Some ev \<Rightarrow> EventApi_remove ev cal)"

text \<open>
  The object \<open>onCacheUpdate\<close> hands to \<open>addEvent\<close> for a decoded record, given the source
  its lookup selected.
\<close>

definition event_handed_over :: "Env \<Rightarrow> CalendarSource \<Rightarrow> EventInput \<Rightarrow> EventInput" where
  "event_handed_over env src newEventData =
     spread_over_defaults (js_or (source_color src) (interactive_accent env))
       (text_on_accent env) newEventData"

text \<open>The single-identity invariant: no two events of the model share an id.\<close>

definition single_identity :: "CalendarView \<Rightarrow> bool" where
  "single_identity this =
     (case calendar this of None \<Rightarrow> True | Some cal \<Rightarrow> distinct (map event_id cal))"

subsection \<open>A small vault for concrete runs\<close>

definition standup :: EventInput where
  "standup = \<lparr>event_id = [], title = ''Standup'', start = ''2024-01-05'', end_date = None,
     allDay = True, color = None, textColor = None\<rparr>"

definition stored_standup :: EventInput where
  "stored_standup = \<lparr>event_id = ''events/a.md'', title = ''Stand-up (old)'',
     start = ''2024-01-04'', end_date = None, allDay = True, color = Some ''#ff0000'',
     textColor = Some ''#ffffff''\<rparr>"

definition example_cache :: MetadataCache where
  "example_cache p =
     (if p = ''events/a.md'' then Some standup
      else if p = ''events/b.md'' then Some standup
      else if p = ''archive/a.md'' then Some standup
      else if p = ''events2/a.md'' then Some standup
      else if p = ''events/undated.md'' then Some (standup\<lparr>start := ''tomorrow-ish''\<rparr>)
      else None)"

text \<open>A parser for the concrete runs: it takes a start that begins with a digit.\<close>

definition example_parser :: "EventInput \<Rightarrow> bool" where
  "example_parser e = (case start e of [] \<Rightarrow> False | ch # rest \<Rightarrow> ch \<in> set ''0123456789'')"

definition example_env :: Env where
  "example_env = \<lparr>settings = \<lparr>calendarSources = [GCal ''team@example.org'' None,
                                                  Local ''events'' (Some ''#ff0000'')],
                                recursiveLocal = False\<rparr>,
                   metadataCache = example_cache,
                   interactive_accent = ''#7b6cd9'',
                   text_on_accent = ''#ffffff'',
                   parseEvent = example_parser\<rparr>"

definition example_view :: CalendarView where
  "example_view = \<lparr>calendar = Some [stored_standup], calendarEl_textContent = None\<rparr>"

definition file_a :: TFile where "file_a = \<lparr>path = ''events/a.md''\<rparr>"
definition file_b :: TFile where "file_b = \<lparr>path = ''events/b.md''\<rparr>"
definition file_archived :: TFile where "file_archived = \<lparr>path = ''archive/a.md''\<rparr>"
definition file_sibling :: TFile where "file_sibling = \<lparr>path = ''events2/a.md''\<rparr>"
definition file_undated :: TFile where "file_undated = \<lparr>path = ''events/undated.md''\<rparr>"

definition undated_view :: CalendarView where
  "undated_view = \<lparr>calendar = Some [stored_standup\<lparr>event_id := ''events/undated.md''\<rparr>],
                    calendarEl_textContent = None\<rparr>"




section \<open>Properties\<close>

subsection \<open>Lists keyed by a field\<close>


lemma find_key_Some:
  "find (\<lambda>e. f e = k) xs = Some x \<Longrightarrow> x \<in> set xs \<and> f x = k"
  by (induction xs) (auto split: if_splits)

lemma find_key_None:
  "find (\<lambda>e. f e = k) xs = None \<Longrightarrow> k \<notin> f ` set xs"
  by (induction xs) (auto split: if_splits)

lemma distinct_map_remove1:
  "distinct (map f xs) \<Longrightarrow> distinct (map f (remove1 x xs))"
proof (induction xs)
  case Nil
  show ?case by simp
next
  case (Cons y ys)
  have "set (remove1 x ys) \<subseteq> set ys" by (rule set_remove1_subset)
  with Cons show ?case by auto
qed

lemma key_gone_remove1:
  "distinct (map f xs) \<Longrightarrow> x \<in> set xs \<Longrightarrow> f x \<notin> f ` set (remove1 x xs)"
proof (induction xs)
  case Nil
  then show ?case by simp
next
  case (Cons y ys)
  show ?case
  proof (cases "x = y")
    case True
    with Cons.prems show ?thesis by simp
  next
    case False
    with Cons.prems have "x \<in> set ys" by simp
    with Cons.prems Cons.IH have ih: "f x \<notin> f ` set (remove1 x ys)" by simp
    from Cons.prems \<open>x \<in> set ys\<close> have "f y \<noteq> f x" by force
    with ih False show ?thesis by simp
  qed
qed

lemma filter_key_empty:
  "k \<notin> f ` set xs \<Longrightarrow> filter (\<lambda>e. f e = k) xs = []"
  by (induction xs) auto

lemma filter_key_remove1_other:
  "f x \<noteq> k \<Longrightarrow> filter (\<lambda>e. f e = k) (remove1 x xs) = filter (\<lambda>e. f e = k) xs"
  by (induction xs) auto

lemma at_most_one_iff_distinct:
  "(\<forall>k. length (filter (\<lambda>e. f e = k) xs) \<le> 1) \<longleftrightarrow> distinct (map f xs)"
proof (induction xs)
  case Nil
  show ?case by simp
next
  case (Cons y ys)
  show ?case
  proof
    assume h: "\<forall>k. length (filter (\<lambda>e. f e = k) (y # ys)) \<le> 1"
    have "\<forall>k. length (filter (\<lambda>e. f e = k) ys) \<le> 1"
    proof
      fix k
      from h have "length (filter (\<lambda>e. f e = k) (y # ys)) \<le> 1" by blast
      then show "length (filter (\<lambda>e. f e = k) ys) \<le> 1"
        by (simp split: if_splits)
    qed
    with Cons.IH have d: "distinct (map f ys)" by simp
    from h have "length (filter (\<lambda>e. f e = f y) (y # ys)) \<le> 1" by blast
    then have "filter (\<lambda>e. f e = f y) ys = []" by simp
    then have "f y \<notin> f ` set ys"
      by (force simp: filter_empty_conv)
    with d show "distinct (map f (y # ys))" by simp
  next
    assume d: "distinct (map f (y # ys))"
    then have d': "distinct (map f ys)" and n: "f y \<notin> f ` set ys"
      by simp_all
    from d' Cons.IH have a: "\<forall>k. length (filter (\<lambda>e. f e = k) ys) \<le> 1" by simp
    from n have "filter (\<lambda>e. f e = f y) ys = []"
      by (rule filter_key_empty)
    with a show "\<forall>k. length (filter (\<lambda>e. f e = k) (y # ys)) \<le> 1"
      by auto
  qed
qed




lemma without_event_distinct:
  "distinct (map event_id cal) \<Longrightarrow> distinct (map event_id (without_event p cal))"
  by (simp add: without_event_def EventApi_remove_def distinct_map_remove1 split: option.split)

lemma without_event_absent:
  assumes "distinct (map event_id cal)"
  shows "p \<notin> event_id ` set (without_event p cal)"
proof (cases "getEventById cal p")
  case None
  then have "p \<notin> event_id ` set cal"
    unfolding getEventById_def by (rule find_key_None)
  with None show ?thesis by (simp add: without_event_def)
next
  case (Some ev)
  then have "ev \<in> set cal \<and> event_id ev = p"
    unfolding getEventById_def by (rule find_key_Some)
  with assms key_gone_remove1 [of event_id cal ev]
  have "p \<notin> event_id ` set (remove1 ev cal)" by blast
  with Some show ?thesis by (simp add: without_event_def EventApi_remove_def)
qed

lemma without_event_others:
  "q \<noteq> p \<Longrightarrow>
     filter (\<lambda>e. event_id e = q) (without_event p cal) = filter (\<lambda>e. event_id e = q) cal"
proof (cases "getEventById cal p")
  case None
  then show ?thesis by (simp add: without_event_def)
next
  case (Some ev)
  assume "q \<noteq> p"
  from Some have "event_id ev = p"
    unfolding getEventById_def by (blast dest: find_key_Some)
  with \<open>q \<noteq> p\<close> have "event_id ev \<noteq> q" by simp
  then have "filter (\<lambda>e. event_id e = q) (remove1 ev cal) = filter (\<lambda>e. event_id e = q) cal"
    by (rule filter_key_remove1_other)
  with Some show ?thesis by (simp add: without_event_def EventApi_remove_def)
qed

lemma removal_calendar:
  "calendar (case (case calendar this of None \<Rightarrow> None | Some cal \<Rightarrow> getEventById cal p) of
               None \<Rightarrow> this
             | Some ev \<Rightarrow> this\<lparr>calendar := map_option (EventApi_remove ev) (calendar this)\<rparr>)
   = map_option (without_event p) (calendar this)"
  by (simp add: without_event_def split: option.split)

lemma removal_textContent:
  "calendarEl_textContent
      (case (case calendar this of None \<Rightarrow> None | Some cal \<Rightarrow> getEventById cal p) of
               None \<Rightarrow> this
             | Some ev \<Rightarrow> this\<lparr>calendar := map_option (EventApi_remove ev) (calendar this)\<rparr>)
   = calendarEl_textContent this"
  by (simp split: option.split)

lemma onDelete_File_calendar:
  "calendar (onDelete this (File f)) = map_option (without_event (path f)) (calendar this)"
  by (simp add: onDelete_def removal_calendar)

lemma onCacheUpdate_skip:
  "find (local_source_of (path f)) (calendarSources (settings env)) = None \<or>
   metadataCache env (path f) = None \<Longrightarrow> onCacheUpdate env this f = this"
  by (auto simp: onCacheUpdate_def getEventInputFromFile_def Let_def split: option.split)

lemma onCacheUpdate_calendar:
  assumes "find (local_source_of (path f)) (calendarSources (settings env)) = Some src"
    and "metadataCache env (path f) = Some r"
  shows "calendar (onCacheUpdate env this f) =
     map_option
       (\<lambda>cal. addEvent (parseEvent env) (without_event (path f) cal)
          (event_handed_over env src (r\<lparr>event_id := path f\<rparr>)))
       (calendar this)"
  using assms
  by (simp add: onCacheUpdate_def getEventInputFromFile_def Let_def event_handed_over_def
      without_event_def option.map_comp comp_def split: option.split)

lemma spread_event_id [simp]:
  "event_id (spread_over_defaults c t d) = event_id d"
  by (simp add: spread_over_defaults_def)

lemma handed_over_event_id [simp]:
  "event_id (event_handed_over env src d) = event_id d"
  by (simp add: event_handed_over_def)

lemma onCacheUpdate_single_identity:
  assumes "single_identity this"
  shows "single_identity (onCacheUpdate env this f)"
proof (cases "find (local_source_of (path f)) (calendarSources (settings env))")
  case None
  with assms show ?thesis by (simp add: onCacheUpdate_skip)
next
  case (Some src)
  show ?thesis
  proof (cases "metadataCache env (path f)")
    case None
    with assms show ?thesis by (simp add: onCacheUpdate_skip)
  next
    case r: (Some r)
    show ?thesis
    proof (cases "calendar this")
      case None
      with onCacheUpdate_calendar [OF Some r, of this]
      show ?thesis by (simp add: single_identity_def)
    next
      case cal: (Some cal)
      with assms have d: "distinct (map event_id cal)" by (simp add: single_identity_def)
      from d have "distinct (map event_id (without_event (path f) cal))"
        by (rule without_event_distinct)
      moreover from d have "path f \<notin> event_id ` set (without_event (path f) cal)"
        by (rule without_event_absent)
      ultimately show ?thesis
        using onCacheUpdate_calendar [OF Some r, of this] cal
        by (simp add: single_identity_def addEvent_def)
    qed
  qed
qed

lemma removal_single_identity:
  assumes "single_identity this"
  shows "single_identity
     (case (case calendar this of None \<Rightarrow> None | Some cal \<Rightarrow> getEventById cal p) of
               None \<Rightarrow> this
             | Some ev \<Rightarrow> this\<lparr>calendar := map_option (EventApi_remove ev) (calendar this)\<rparr>)"
proof (cases "calendar this")
  case None
  with assms show ?thesis by simp
next
  case (Some cal)
  with assms have "distinct (map event_id cal)" by (simp add: single_identity_def)
  then have "distinct (map event_id (without_event p cal))" by (rule without_event_distinct)
  with Some removal_calendar [of this p] show ?thesis
    by (simp add: single_identity_def)
qed

lemma onDelete_single_identity:
  "single_identity this \<Longrightarrow> single_identity (onDelete this file)"
  by (cases "file") (simp_all add: onDelete_def removal_single_identity)

lemma onRename_single_identity:
  "single_identity this \<Longrightarrow> single_identity (onRename env this file oldPath)"
  by (cases "file")
     (simp_all add: onRename_def Let_def removal_single_identity onCacheUpdate_single_identity)

lemma handle_single_identity:
  "single_identity this \<Longrightarrow> single_identity (handle this n)"
proof (cases n)
  case (Pair env m)
  assume "single_identity this"
  with Pair show ?thesis
    by (cases m)
       (simp_all add: onCacheUpdate_single_identity onDelete_single_identity
          onRename_single_identity)
qed

lemma run_single_identity:
  "single_identity this \<Longrightarrow> single_identity (run this ns)"
  by (induction ns arbitrary: this) (simp_all add: handle_single_identity)

lemma single_identity_iff:
  "single_identity this \<longleftrightarrow> (\<forall>p. length (eventsWithId this p) \<le> 1)"
proof (cases "calendar this")
  case None
  then show ?thesis by (simp add: single_identity_def eventsWithId_def)
next
  case (Some cal)
  have "distinct (map event_id cal) \<longleftrightarrow>
        (\<forall>p. length (filter (\<lambda>e. event_id e = p) cal) \<le> 1)"
    by (rule at_most_one_iff_distinct [symmetric])
  with Some show ?thesis by (simp add: single_identity_def eventsWithId_def)
qed


lemma filter_head_find:
  "filter P xs = x # rest \<Longrightarrow> find P xs = Some x"
  by (induction xs) (auto split: if_splits)

lemma filter_empty_find:
  "filter P xs = [] \<Longrightarrow> find P xs = None"
  by (induction xs) (auto split: if_splits)

lemma filter_head_remove1:
  "filter P xs = x # rest \<Longrightarrow> filter P (remove1 x xs) = rest"
proof (induction xs)
  case Nil
  then show ?case by simp
next
  case (Cons y ys)
  show ?case
  proof (cases "P y")
    case True
    with Cons.prems show ?thesis by simp
  next
    case False
    with Cons.prems have f: "filter P ys = x # rest" by simp
    then have "x \<in> set (filter P ys)" by simp
    then have "P x" by simp
    with False have "x \<noteq> y" by blast
    with False Cons.IH [OF f] show ?thesis by simp
  qed
qed

lemma without_event_same:
  "filter (\<lambda>e. event_id e = p) (without_event p cal) = tl (filter (\<lambda>e. event_id e = p) cal)"
proof (cases "filter (\<lambda>e. event_id e = p) cal")
  case Nil
  then have "getEventById cal p = None"
    unfolding getEventById_def by (rule filter_empty_find)
  with Nil show ?thesis by (simp add: without_event_def)
next
  case (Cons x rest)
  then have "getEventById cal p = Some x"
    unfolding getEventById_def by (rule filter_head_find)
  moreover from Cons have "filter (\<lambda>e. event_id e = p) (remove1 x cal) = rest"
    by (rule filter_head_remove1)
  ultimately show ?thesis using Cons by (simp add: without_event_def EventApi_remove_def)
qed

lemma onDelete_absent:
  assumes "eventsWithId this (path f) = []"
  shows "onDelete this (File f) = this"
proof (cases "calendar this")
  case None
  then show ?thesis by (simp add: onDelete_def)
next
  case (Some cal)
  with assms have "filter (\<lambda>e. event_id e = path f) cal = []"
    by (simp add: eventsWithId_def)
  then have "getEventById cal (path f) = None"
    unfolding getEventById_def by (rule filter_empty_find)
  with Some show ?thesis by (simp add: onDelete_def)
qed

lemma onDelete_same:
  "eventsWithId (onDelete this (File f)) (path f) = tl (eventsWithId this (path f))"
  by (cases "calendar this")
     (simp_all add: eventsWithId_def onDelete_File_calendar without_event_same)

lemma onDelete_others:
  "q \<noteq> path f \<Longrightarrow> eventsWithId (onDelete this (File f)) q = eventsWithId this q"
  by (cases "calendar this")
     (simp_all add: eventsWithId_def onDelete_File_calendar without_event_others)

lemma lookup_finds_source:
  assumes "Local dir c \<in> set srcs" and "lies_within_directory dir p"
  shows "\<exists>src. find (local_source_of p) srcs = Some src"
proof -
  from assms(2) have "prefix dir p"
    unfolding lies_within_directory_def by (rule append_prefixD)
  then have "local_source_of p (Local dir c)" by simp
  with assms(1) have "find (local_source_of p) srcs \<noteq> None"
    by (auto simp: find_None_iff)
  then show ?thesis by blast
qed

lemma onCacheUpdate_same:
  assumes "find (local_source_of (path f)) (calendarSources (settings env)) = Some src"
    and "metadataCache env (path f) = Some r"
    and "calendar this = Some cal"
  shows "eventsWithId (onCacheUpdate env this f) (path f) =
     tl (eventsWithId this (path f)) @
       (if parseEvent env (event_handed_over env src (r\<lparr>event_id := path f\<rparr>))
        then [event_handed_over env src (r\<lparr>event_id := path f\<rparr>)] else [])"
  using onCacheUpdate_calendar [OF assms(1,2), of this] assms(3)
  by (simp add: eventsWithId_def without_event_same addEvent_def)

lemma onCacheUpdate_others:
  assumes "q \<noteq> path f"
  shows "eventsWithId (onCacheUpdate env this f) q = eventsWithId this q"
proof (cases "find (local_source_of (path f)) (calendarSources (settings env))")
  case None
  then show ?thesis by (simp add: onCacheUpdate_skip)
next
  case (Some src)
  show ?thesis
  proof (cases "metadataCache env (path f)")
    case None
    then show ?thesis by (simp add: onCacheUpdate_skip)
  next
    case r: (Some r)
    from assms have "path f \<noteq> q" by blast
    with onCacheUpdate_calendar [OF Some r, of this] assms show ?thesis
      by (cases "calendar this")
         (simp_all add: eventsWithId_def without_event_others addEvent_def)
  qed
qed

lemma decode_cases:
  "getEventInputFromFile cache f = Some d \<Longrightarrow>
     \<exists>r. cache (path f) = Some r \<and> d = r\<lparr>event_id := path f\<rparr>"
  by (auto simp: getEventInputFromFile_def split: option.splits)

lemma handle_closed:
  "calendar this = None \<Longrightarrow> handle this n = this"
proof (cases n)
  case (Pair env m)
  assume "calendar this = None"
  with Pair show ?thesis
    by (cases m)
       (auto simp: onCacheUpdate_def onDelete_def onRename_def Let_def
          split: option.split TAbstractFile.split)
qed

lemma run_closed:
  "calendar this = None \<Longrightarrow> run this ns = this"
  by (induction ns) (simp_all add: handle_closed)

subsection \<open>The claims\<close>

text \<open>
  C1 (single-identity invariant). For every identity \<open>p\<close>: when the model holds at most
  one event per identity, then after any finite sequence of metadata-changed, delete and
  rename notifications, each handled in the environment of its moment, at most one event
  with id \<open>p\<close> exists in the model.
\<close>

theorem single_identity_invariant:
  assumes "\<forall>q. length (eventsWithId this q) \<le> 1"
  shows "length (eventsWithId (run this ns) p) \<le> 1"
proof -
  from assms have "single_identity this" by (simp add: single_identity_iff)
  then have "single_identity (run this ns)" by (rule run_single_identity)
  then show ?thesis by (simp add: single_identity_iff)
qed

theorem single_identity_invariant_witness:
  "(\<forall>q. length (eventsWithId example_view q) \<le> 1) \<and>
   length (eventsWithId
     (run example_view
        [(example_env, MetadataChanged file_a), (example_env, MetadataChanged file_a),
         (example_env, Renamed (File file_b) ''events/a.md''),
         (example_env, MetadataChanged file_b), (example_env, Deleted (File file_a))])
     ''events/b.md'') \<le> 1"
proof -
  have h: "\<forall>q. length (eventsWithId example_view q) \<le> 1"
    by (simp add: eventsWithId_def example_view_def)
  from single_identity_invariant [OF h] h show ?thesis by blast
qed


text \<open>
  C7. A metadata-changed notification for a document that decodes to null leaves the
  model as it is, whether or not an event with the document's path is present.
\<close>

theorem decode_null_keeps_model:
  "getEventInputFromFile (metadataCache env) f = None \<Longrightarrow> onCacheUpdate env this f = this"
  by (simp add: onCacheUpdate_def Let_def split: option.split)

theorem decode_null_keeps_model_witness:
  "getEventInputFromFile (metadataCache example_env) \<lparr>path = ''events/c.md''\<rparr> = None \<and>
   eventsWithId \<lparr>calendar = Some [stored_standup\<lparr>event_id := ''events/c.md''\<rparr>],
                  calendarEl_textContent = None\<rparr> ''events/c.md''
     = [stored_standup\<lparr>event_id := ''events/c.md''\<rparr>] \<and>
   onCacheUpdate example_env
     \<lparr>calendar = Some [stored_standup\<lparr>event_id := ''events/c.md''\<rparr>],
      calendarEl_textContent = None\<rparr> \<lparr>path = ''events/c.md''\<rparr>
     = \<lparr>calendar = Some [stored_standup\<lparr>event_id := ''events/c.md''\<rparr>],
        calendarEl_textContent = None\<rparr>"
proof -
  have h: "getEventInputFromFile (metadataCache example_env) \<lparr>path = ''events/c.md''\<rparr> = None"
    by (simp add: getEventInputFromFile_def example_env_def example_cache_def)
  from decode_null_keeps_model [OF h] h show ?thesis
    by (simp add: eventsWithId_def)
qed

text \<open>
  C8. A delete notification for a plain file at path \<open>p\<close>: when the model holds no event
  with id \<open>p\<close> (or there is no widget) the view is left exactly as it was; when it holds
  one, the oldest event with id \<open>p\<close> leaves the model, so that under the single-identity
  invariant no event with id \<open>p\<close> remains; the events of every other identity stay.
\<close>

theorem delete_removes_event:
  "(eventsWithId this (path f) = [] \<longrightarrow> onDelete this (File f) = this) \<and>
   eventsWithId (onDelete this (File f)) (path f) = tl (eventsWithId this (path f)) \<and>
   (length (eventsWithId this (path f)) \<le> 1 \<longrightarrow>
      eventsWithId (onDelete this (File f)) (path f) = []) \<and>
   (q \<noteq> path f \<longrightarrow> eventsWithId (onDelete this (File f)) q = eventsWithId this q)"
proof -
  have "length (eventsWithId this (path f)) \<le> 1 \<Longrightarrow> tl (eventsWithId this (path f)) = []"
    by (cases "eventsWithId this (path f)") simp_all
  then show ?thesis
    by (simp add: onDelete_absent onDelete_same onDelete_others)
qed

theorem delete_removes_event_witness:
  "length (eventsWithId example_view (path file_a)) \<le> 1 \<and>
   eventsWithId (onDelete example_view (File file_a)) (path file_a) = [] \<and>
   eventsWithId example_view (path file_b) = [] \<and>
   onDelete example_view (File file_b) = example_view \<and>
   ''events/b.md'' \<noteq> path file_a \<and>
   eventsWithId (onDelete example_view (File file_a)) ''events/b.md''
     = eventsWithId example_view ''events/b.md''"
proof -
  have a: "length (eventsWithId example_view (path file_a)) \<le> 1"
    by (simp add: eventsWithId_def example_view_def)
  have b: "eventsWithId example_view (path file_b) = []"
    by (simp add: eventsWithId_def example_view_def stored_standup_def file_b_def)
  have c: "''events/b.md'' \<noteq> path file_a"
    by (simp add: file_a_def)
  from delete_removes_event [of example_view file_a "''events/b.md''"]
       delete_removes_event [of example_view file_b "''events/b.md''"] a b c
  show ?thesis by blast
qed

text \<open>
  C9. Closing the view sets the \<open>calendar\<close> field to null, and from then on every
  metadata-changed, delete and rename notification, and every sequence of them, returns
  the closed view unchanged; the handlers are total, none of them has a failing branch.
\<close>

theorem closed_view_ignores_notifications:
  "calendar (onClose this) = None \<and> run (onClose this) ns = onClose this"
proof -
  have "calendar (onClose this) = None"
    by (simp add: onClose_def split: option.split)
  then show ?thesis by (simp add: run_closed)
qed

theorem closed_view_ignores_notifications_witness:
  "calendar (onClose example_view) = None \<and>
   run (onClose example_view)
     [(example_env, MetadataChanged file_a), (example_env, Deleted (File file_a)),
      (example_env, Renamed (File file_b) ''events/a.md'')]
     = \<lparr>calendar = None, calendarEl_textContent = None\<rparr>"
  using closed_view_ignores_notifications
    [of example_view "[(example_env, MetadataChanged file_a), (example_env, Deleted (File file_a)),
      (example_env, Renamed (File file_b) ''events/a.md'')]"]
  by (simp add: onClose_def example_view_def)

text \<open>
  C10. A delete notification for a folder leaves the view, and with it the whole model,
  unchanged: the events backed by documents of that folder stay.
\<close>

theorem delete_folder_keeps_model:
  "onDelete this (Folder d) = this"
  by (simp add: onDelete_def)

theorem delete_folder_keeps_model_witness:
  "onDelete example_view (Folder ''events'') = example_view \<and>
   eventsWithId (onDelete example_view (Folder ''events'')) ''events/a.md'' = [stored_standup]"
  using delete_folder_keeps_model [of example_view "''events''"]
  by (simp add: eventsWithId_def example_view_def stored_standup_def)


text \<open>
  C2, as the claim states it, fails: the handler removes the event it finds and then hands
  the decoded record to the widget, and the widget stores nothing for a record it cannot
  parse. Here \<open>events/undated.md\<close> lies within the Local source \<open>events\<close>, an event with
  its id is present, and its front-matter now decodes to a record whose start is
  \<open>tomorrow-ish\<close>; afterwards the model holds no event for it.
\<close>

theorem unparsed_event_is_lost_counterexample:
  "Local ''events'' (Some ''#ff0000'') \<in> set (calendarSources (settings example_env)) \<and>
   lies_within_directory ''events'' (path file_undated) \<and>
   getEventInputFromFile (metadataCache example_env) file_undated
     = Some (standup\<lparr>event_id := ''events/undated.md'', start := ''tomorrow-ish''\<rparr>) \<and>
   eventsWithId undated_view (path file_undated)
     = [stored_standup\<lparr>event_id := ''events/undated.md''\<rparr>] \<and>
   onCacheUpdate example_env undated_view file_undated
     = \<lparr>calendar = Some [], calendarEl_textContent = None\<rparr>"
  by (simp add: example_env_def lies_within_directory_def file_undated_def
      getEventInputFromFile_def example_cache_def standup_def eventsWithId_def undated_view_def
      stored_standup_def onCacheUpdate_def getEventById_def EventApi_remove_def addEvent_def
      spread_over_defaults_def js_or_def example_parser_def)

text \<open>
  C2, amended. A metadata-changed notification for a document at path \<open>p\<close> that decodes to
  an event record, where the handler's lookup selects the Local source \<open>Local dir c\<close> and
  \<open>p\<close> lies within \<open>dir\<close>, on an open view: the record handed to the widget is the
  decoded one with the colour it carries, else the colour \<open>c\<close> of that source if it has one,
  else the theme's accent colour. If an event with id \<open>p\<close> is present, that event is
  taken out of the model first; if none is present, nothing is taken out. Then the record
  handed over is added at the end when the widget's parser takes it, and nothing is added
  when it does not. When the parser takes it and the model held the identity at most once,
  the model holds exactly the new event for it afterwards.
\<close>

theorem metadata_changed_replaces_event:
  assumes "find (local_source_of (path f)) (calendarSources (settings env)) = Some (Local dir c)"
    and "lies_within_directory dir (path f)"
    and "getEventInputFromFile (metadataCache env) f = Some newEventData"
    and "calendar this = Some cal"
  shows "\<exists>added.
           added = newEventData
             \<lparr>color := Some (case color newEventData of
                               Some x \<Rightarrow> x
                             | None \<Rightarrow>
                                 (case c of
                                    None \<Rightarrow> interactive_accent env
                                  | Some s \<Rightarrow> if s = [] then interactive_accent env else s)),
              textColor := Some (case textColor newEventData of
                                   Some t \<Rightarrow> t
                                 | None \<Rightarrow> text_on_accent env)\<rparr> \<and>
           event_id added = path f \<and>
           (\<forall>old. getEventById cal (path f) = Some old \<longrightarrow>
              calendar (onCacheUpdate env this f)
                = Some (if parseEvent env added then remove1 old cal @ [added]
                        else remove1 old cal)) \<and>
           (getEventById cal (path f) = None \<longrightarrow>
              calendar (onCacheUpdate env this f)
                = Some (if parseEvent env added then cal @ [added] else cal)) \<and>
           (parseEvent env added \<and> length (eventsWithId this (path f)) \<le> 1 \<longrightarrow>
              eventsWithId (onCacheUpdate env this f) (path f) = [added])"
proof -
  let ?src = "Local dir c"
  from decode_cases [OF assms(3)]
  obtain r where r: "metadataCache env (path f) = Some r" and d: "newEventData = r\<lparr>event_id := path f\<rparr>"
    by blast
  let ?added = "event_handed_over env ?src newEventData"
  have cal': "calendar (onCacheUpdate env this f)
                = Some (addEvent (parseEvent env) (without_event (path f) cal) ?added)"
    using onCacheUpdate_calendar [OF assms(1) r, of this] assms(4) d by simp
  have shape: "?added = newEventData
             \<lparr>color := Some (case color newEventData of
                               Some x \<Rightarrow> x
                             | None \<Rightarrow>
                                 (case c of
                                    None \<Rightarrow> interactive_accent env
                                  | Some s \<Rightarrow> if s = [] then interactive_accent env else s)),
              textColor := Some (case textColor newEventData of
                                   Some t \<Rightarrow> t
                                 | None \<Rightarrow> text_on_accent env)\<rparr>"
    by (simp add: event_handed_over_def spread_over_defaults_def js_or_def split: option.split)
  have ident: "event_id ?added = path f"
    using d by simp
  have present: "\<forall>old. getEventById cal (path f) = Some old \<longrightarrow>
              calendar (onCacheUpdate env this f)
                = Some (if parseEvent env ?added then remove1 old cal @ [?added]
                        else remove1 old cal)"
    using cal' by (simp add: without_event_def EventApi_remove_def addEvent_def)
  have absent: "getEventById cal (path f) = None \<longrightarrow>
              calendar (onCacheUpdate env this f)
                = Some (if parseEvent env ?added then cal @ [?added] else cal)"
    using cal' by (simp add: without_event_def addEvent_def)
  have one: "parseEvent env ?added \<and> length (eventsWithId this (path f)) \<le> 1 \<longrightarrow>
              eventsWithId (onCacheUpdate env this f) (path f) = [?added]"
  proof
    assume a: "parseEvent env ?added \<and> length (eventsWithId this (path f)) \<le> 1"
    then have "tl (eventsWithId this (path f)) = []"
      by (cases "eventsWithId this (path f)") simp_all
    with onCacheUpdate_same [OF assms(1) r assms(4)] d a show
      "eventsWithId (onCacheUpdate env this f) (path f) = [?added]"
      by simp
  qed
  show ?thesis
  proof (rule exI [of _ ?added], intro conjI)
    show "?added = newEventData
             \<lparr>color := Some (case color newEventData of
                               Some x \<Rightarrow> x
                             | None \<Rightarrow>
                                 (case c of
                                    None \<Rightarrow> interactive_accent env
                                  | Some s \<Rightarrow> if s = [] then interactive_accent env else s)),
              textColor := Some (case textColor newEventData of
                                   Some t \<Rightarrow> t
                                 | None \<Rightarrow> text_on_accent env)\<rparr>"
      by (rule shape)
    show "event_id ?added = path f" by (rule ident)
    show "\<forall>old. getEventById cal (path f) = Some old \<longrightarrow>
              calendar (onCacheUpdate env this f)
                = Some (if parseEvent env ?added then remove1 old cal @ [?added]
                        else remove1 old cal)"
      by (rule present)
    show "getEventById cal (path f) = None \<longrightarrow>
              calendar (onCacheUpdate env this f)
                = Some (if parseEvent env ?added then cal @ [?added] else cal)"
      by (rule absent)
    show "parseEvent env ?added \<and> length (eventsWithId this (path f)) \<le> 1 \<longrightarrow>
              eventsWithId (onCacheUpdate env this f) (path f) = [?added]"
      by (rule one)
  qed
qed

theorem metadata_changed_replaces_event_witness:
  "find (local_source_of (path file_a)) (calendarSources (settings example_env))
     = Some (Local ''events'' (Some ''#ff0000'')) \<and>
   lies_within_directory ''events'' (path file_a) \<and>
   getEventInputFromFile (metadataCache example_env) file_a
     = Some (standup\<lparr>event_id := ''events/a.md''\<rparr>) \<and>
   calendar example_view = Some [stored_standup] \<and>
   getEventById [stored_standup] (path file_a) = Some stored_standup \<and>
   parseEvent example_env (standup\<lparr>event_id := ''events/a.md'', color := Some ''#ff0000'',
                                    textColor := Some ''#ffffff''\<rparr>) \<and>
   calendar (onCacheUpdate example_env example_view file_a)
     = Some [standup\<lparr>event_id := ''events/a.md'', color := Some ''#ff0000'',
                     textColor := Some ''#ffffff''\<rparr>]"
proof -
  have h1: "find (local_source_of (path file_a)) (calendarSources (settings example_env))
     = Some (Local ''events'' (Some ''#ff0000''))"
    by (simp add: example_env_def file_a_def)
  have h2: "lies_within_directory ''events'' (path file_a)"
    by (simp add: lies_within_directory_def file_a_def)
  have h3: "getEventInputFromFile (metadataCache example_env) file_a
     = Some (standup\<lparr>event_id := ''events/a.md''\<rparr>)"
    by (simp add: getEventInputFromFile_def example_env_def example_cache_def file_a_def)
  have h4: "calendar example_view = Some [stored_standup]"
    by (simp add: example_view_def)
  have h5: "getEventById [stored_standup] (path file_a) = Some stored_standup"
    by (simp add: getEventById_def stored_standup_def file_a_def)
  have h6: "parseEvent example_env (standup\<lparr>event_id := ''events/a.md'',
               color := Some ''#ff0000'', textColor := Some ''#ffffff''\<rparr>)"
    by (simp add: example_env_def example_parser_def standup_def)
  have sh: "standup\<lparr>event_id := ''events/a.md''\<rparr>
      \<lparr>color := Some (case color (standup\<lparr>event_id := ''events/a.md''\<rparr>) of
                        Some x \<Rightarrow> x
                      | None \<Rightarrow>
                          (case Some ''#ff0000'' of
                             None \<Rightarrow> interactive_accent example_env
                           | Some s \<Rightarrow> if s = [] then interactive_accent example_env else s)),
       textColor := Some (case textColor (standup\<lparr>event_id := ''events/a.md''\<rparr>) of
                            Some t \<Rightarrow> t
                          | None \<Rightarrow> text_on_accent example_env)\<rparr>
     = standup\<lparr>event_id := ''events/a.md'', color := Some ''#ff0000'',
                textColor := Some ''#ffffff''\<rparr>"
    by (simp add: standup_def example_env_def)
  from metadata_changed_replaces_event [OF h1 h2 h3 h4]
  obtain added where
    a: "added = standup\<lparr>event_id := ''events/a.md'', color := Some ''#ff0000'',
                         textColor := Some ''#ffffff''\<rparr>"
    and p: "\<forall>old. getEventById [stored_standup] (path file_a) = Some old \<longrightarrow>
              calendar (onCacheUpdate example_env example_view file_a)
                = Some (if parseEvent example_env added
                        then remove1 old [stored_standup] @ [added]
                        else remove1 old [stored_standup])"
    unfolding sh by blast
  from p h5 have "calendar (onCacheUpdate example_env example_view file_a)
                = Some (if parseEvent example_env added
                        then remove1 stored_standup [stored_standup] @ [added]
                        else remove1 stored_standup [stored_standup])"
    by blast
  with a h6 have "calendar (onCacheUpdate example_env example_view file_a)
     = Some [standup\<lparr>event_id := ''events/a.md'', color := Some ''#ff0000'',
                     textColor := Some ''#ffffff''\<rparr>]"
    by simp
  with h1 h2 h3 h4 h5 h6 show ?thesis by blast
qed

text \<open>
  C3, as the claim states it, fails: a document renamed to a path outside every Local
  source's directory still decodes to an event, yet the directory filter of
  \<open>onCacheUpdate\<close> keeps it out of the model. Here \<open>events/a.md\<close>, which holds an event,
  is renamed to \<open>archive/a.md\<close>; afterwards no event exists at the new path.
\<close>

theorem rename_out_of_scope_counterexample:
  "eventsWithId example_view ''events/a.md'' = [stored_standup] \<and>
   getEventInputFromFile (metadataCache example_env) file_archived
     = Some (standup\<lparr>event_id := ''archive/a.md''\<rparr>) \<and>
   eventsWithId (onRename example_env example_view (File file_archived) ''events/a.md'')
     ''archive/a.md'' = []"
  by (simp add: eventsWithId_def example_view_def stored_standup_def getEventInputFromFile_def
      example_env_def example_cache_def file_archived_def onRename_def onCacheUpdate_def
      getEventById_def EventApi_remove_def)

text \<open>
  C3, amended. Every rename notification first takes the event at \<open>oldPath\<close> out of the
  model exactly as a delete of a file at \<open>oldPath\<close> does (a no-op if absent), whatever the
  new path is and whatever it decodes to; for a plain file the metadata-changed transition
  is then run for the new path on the result, for a folder nothing more happens. So after
  a rename to a different path the events at \<open>oldPath\<close> are those it held, less the oldest.
  In particular: if the view is open, the model holds at most one event per identity, the
  new path differs from \<open>oldPath\<close>, its document decodes to an event, the lookup selects a
  Local source within whose directory the new path lies, and the widget's parser takes the
  record handed over, then afterwards no event exists at \<open>oldPath\<close> and exactly one at the
  new path: the record handed over, with the id, title, start, end and all-day flag of the
  fresh decode.
\<close>

theorem rename_destroys_and_recreates:
  "onRename env this (File f) oldPath
     = onCacheUpdate env (onDelete this (File \<lparr>path = oldPath\<rparr>)) f \<and>
   onRename env this (Folder folder) oldPath = onDelete this (File \<lparr>path = oldPath\<rparr>) \<and>
   eventsWithId (onRename env this (Folder folder) oldPath) oldPath
     = tl (eventsWithId this oldPath) \<and>
   (path f \<noteq> oldPath \<longrightarrow>
      eventsWithId (onRename env this (File f) oldPath) oldPath = tl (eventsWithId this oldPath)) \<and>
   (find (local_source_of (path f)) (calendarSources (settings env)) = Some (Local dir c) \<and>
    lies_within_directory dir (path f) \<and>
    getEventInputFromFile (metadataCache env) f = Some d \<and>
    parseEvent env (event_handed_over env (Local dir c) d) \<and>
    calendar this \<noteq> None \<and>
    (\<forall>q. length (eventsWithId this q) \<le> 1) \<and>
    path f \<noteq> oldPath \<longrightarrow>
      eventsWithId (onRename env this (File f) oldPath) oldPath = [] \<and>
      eventsWithId (onRename env this (File f) oldPath) (path f)
        = [event_handed_over env (Local dir c) d] \<and>
      event_id (event_handed_over env (Local dir c) d) = path f \<and>
      event_id (event_handed_over env (Local dir c) d) = event_id d \<and>
      title (event_handed_over env (Local dir c) d) = title d \<and>
      start (event_handed_over env (Local dir c) d) = start d \<and>
      end_date (event_handed_over env (Local dir c) d) = end_date d \<and>
      allDay (event_handed_over env (Local dir c) d) = allDay d)"
proof -
  let ?old = "\<lparr>path = oldPath\<rparr>"
  let ?this1 = "onDelete this (File ?old)"
  let ?added = "event_handed_over env (Local dir c) d"
  have eq: "onRename env this (File f) oldPath = onCacheUpdate env ?this1 f"
    by (cases "calendar this") (simp_all add: onRename_def onDelete_def Let_def)
  have eqF: "onRename env this (Folder folder) oldPath = ?this1"
    by (cases "calendar this") (simp_all add: onRename_def onDelete_def Let_def)
  have del: "eventsWithId ?this1 oldPath = tl (eventsWithId this oldPath)"
    using onDelete_same [of this ?old] by simp
  have folder: "eventsWithId (onRename env this (Folder folder) oldPath) oldPath
     = tl (eventsWithId this oldPath)"
    using eqF del by simp
  have oldgone: "path f \<noteq> oldPath \<longrightarrow>
      eventsWithId (onRename env this (File f) oldPath) oldPath = tl (eventsWithId this oldPath)"
  proof
    assume "path f \<noteq> oldPath"
    then have "oldPath \<noteq> path f" by blast
    then have "eventsWithId (onCacheUpdate env ?this1 f) oldPath = eventsWithId ?this1 oldPath"
      by (rule onCacheUpdate_others)
    with eq del show
      "eventsWithId (onRename env this (File f) oldPath) oldPath = tl (eventsWithId this oldPath)"
      by simp
  qed
  have particular:
    "find (local_source_of (path f)) (calendarSources (settings env)) = Some (Local dir c) \<and>
    lies_within_directory dir (path f) \<and>
    getEventInputFromFile (metadataCache env) f = Some d \<and>
    parseEvent env ?added \<and>
    calendar this \<noteq> None \<and>
    (\<forall>q. length (eventsWithId this q) \<le> 1) \<and>
    path f \<noteq> oldPath \<longrightarrow>
      eventsWithId (onRename env this (File f) oldPath) oldPath = [] \<and>
      eventsWithId (onRename env this (File f) oldPath) (path f) = [?added] \<and>
      event_id ?added = path f \<and> event_id ?added = event_id d \<and>
      title ?added = title d \<and> start ?added = start d \<and>
      end_date ?added = end_date d \<and> allDay ?added = allDay d"
  proof
    assume h: "find (local_source_of (path f)) (calendarSources (settings env))
        = Some (Local dir c) \<and>
      lies_within_directory dir (path f) \<and>
      getEventInputFromFile (metadataCache env) f = Some d \<and>
      parseEvent env ?added \<and>
      calendar this \<noteq> None \<and>
      (\<forall>q. length (eventsWithId this q) \<le> 1) \<and>
      path f \<noteq> oldPath"
    then have src: "find (local_source_of (path f)) (calendarSources (settings env))
        = Some (Local dir c)"
      and dec: "getEventInputFromFile (metadataCache env) f = Some d"
      and acc: "parseEvent env ?added"
      and inv: "\<forall>q. length (eventsWithId this q) \<le> 1"
      and ne: "path f \<noteq> oldPath"
      by blast+
    from h obtain cal where cal: "calendar this = Some cal" by blast
    from decode_cases [OF dec]
    obtain r where r: "metadataCache env (path f) = Some r" and d: "d = r\<lparr>event_id := path f\<rparr>"
      by blast
    from cal have open1: "calendar ?this1 = Some (without_event oldPath cal)"
      using onDelete_File_calendar [of this ?old] by simp
    from inv have "length (eventsWithId this oldPath) \<le> 1" by blast
    then have "tl (eventsWithId this oldPath) = []"
      by (cases "eventsWithId this oldPath") simp_all
    with oldgone ne have gone: "eventsWithId (onRename env this (File f) oldPath) oldPath = []"
      by simp
    from ne have "eventsWithId ?this1 (path f) = eventsWithId this (path f)"
      using onDelete_others [of "path f" ?old this] by simp
    moreover from inv have "length (eventsWithId this (path f)) \<le> 1" by blast
    ultimately have "tl (eventsWithId ?this1 (path f)) = []"
      by (cases "eventsWithId this (path f)") simp_all
    with onCacheUpdate_same [OF src r open1] eq d acc
    have new: "eventsWithId (onRename env this (File f) oldPath) (path f) = [?added]"
      by simp
    have idp: "event_id ?added = path f" using d by simp
    have fields: "event_id ?added = event_id d \<and> title ?added = title d \<and>
      start ?added = start d \<and> end_date ?added = end_date d \<and> allDay ?added = allDay d"
      by (simp add: event_handed_over_def spread_over_defaults_def)
    from gone new idp fields show
      "eventsWithId (onRename env this (File f) oldPath) oldPath = [] \<and>
      eventsWithId (onRename env this (File f) oldPath) (path f) = [?added] \<and>
      event_id ?added = path f \<and> event_id ?added = event_id d \<and>
      title ?added = title d \<and> start ?added = start d \<and>
      end_date ?added = end_date d \<and> allDay ?added = allDay d"
      by blast
  qed
  from eq eqF folder oldgone particular show ?thesis by blast
qed

theorem rename_destroys_and_recreates_witness:
  "find (local_source_of (path file_b)) (calendarSources (settings example_env))
     = Some (Local ''events'' (Some ''#ff0000'')) \<and>
   lies_within_directory ''events'' (path file_b) \<and>
   getEventInputFromFile (metadataCache example_env) file_b
     = Some (standup\<lparr>event_id := ''events/b.md''\<rparr>) \<and>
   parseEvent example_env
     (event_handed_over example_env (Local ''events'' (Some ''#ff0000''))
        (standup\<lparr>event_id := ''events/b.md''\<rparr>)) \<and>
   calendar example_view \<noteq> None \<and>
   (\<forall>q. length (eventsWithId example_view q) \<le> 1) \<and>
   path file_b \<noteq> ''events/a.md'' \<and>
   eventsWithId example_view ''events/a.md'' = [stored_standup] \<and>
   eventsWithId (onRename example_env example_view (File file_b) ''events/a.md'')
     ''events/a.md'' = [] \<and>
   eventsWithId (onRename example_env example_view (File file_b) ''events/a.md'')
     (path file_b)
     = [standup\<lparr>event_id := ''events/b.md'', color := Some ''#ff0000'',
                 textColor := Some ''#ffffff''\<rparr>] \<and>
   eventsWithId (onRename example_env example_view (File file_archived) ''events/a.md'')
     ''events/a.md'' = tl (eventsWithId example_view ''events/a.md'')"
proof -
  have h1: "find (local_source_of (path file_b)) (calendarSources (settings example_env))
     = Some (Local ''events'' (Some ''#ff0000''))"
    by (simp add: example_env_def file_b_def)
  have h2: "lies_within_directory ''events'' (path file_b)"
    by (simp add: lies_within_directory_def file_b_def)
  have h3: "getEventInputFromFile (metadataCache example_env) file_b
     = Some (standup\<lparr>event_id := ''events/b.md''\<rparr>)"
    by (simp add: getEventInputFromFile_def example_env_def example_cache_def file_b_def)
  have ho: "event_handed_over example_env (Local ''events'' (Some ''#ff0000''))
        (standup\<lparr>event_id := ''events/b.md''\<rparr>)
      = standup\<lparr>event_id := ''events/b.md'', color := Some ''#ff0000'',
                 textColor := Some ''#ffffff''\<rparr>"
    by (simp add: event_handed_over_def spread_over_defaults_def js_or_def standup_def
        example_env_def)
  have h4: "parseEvent example_env
     (event_handed_over example_env (Local ''events'' (Some ''#ff0000''))
        (standup\<lparr>event_id := ''events/b.md''\<rparr>))"
    unfolding ho by (simp add: example_env_def example_parser_def standup_def)
  have h5: "calendar example_view \<noteq> None"
    by (simp add: example_view_def)
  have h6: "\<forall>q. length (eventsWithId example_view q) \<le> 1"
    by (simp add: eventsWithId_def example_view_def)
  have h7: "path file_b \<noteq> ''events/a.md''"
    by (simp add: file_b_def)
  have h8: "eventsWithId example_view ''events/a.md'' = [stored_standup]"
    by (simp add: eventsWithId_def example_view_def stored_standup_def)
  have h9: "path file_archived \<noteq> ''events/a.md''"
    by (simp add: file_archived_def)
  have hyp: "find (local_source_of (path file_b)) (calendarSources (settings example_env))
       = Some (Local ''events'' (Some ''#ff0000'')) \<and>
     lies_within_directory ''events'' (path file_b) \<and>
     getEventInputFromFile (metadataCache example_env) file_b
       = Some (standup\<lparr>event_id := ''events/b.md''\<rparr>) \<and>
     parseEvent example_env
       (event_handed_over example_env (Local ''events'' (Some ''#ff0000''))
          (standup\<lparr>event_id := ''events/b.md''\<rparr>)) \<and>
     calendar example_view \<noteq> None \<and>
     (\<forall>q. length (eventsWithId example_view q) \<le> 1) \<and>
     path file_b \<noteq> ''events/a.md''"
    using h1 h2 h3 h4 h5 h6 h7 by (intro conjI)
  note inst = rename_destroys_and_recreates
         [of example_env example_view file_b "''events/a.md''" "''events''" "''events''"
             "Some ''#ff0000''" "standup\<lparr>event_id := ''events/b.md''\<rparr>"]
  note r1 = inst [THEN conjunct2, THEN conjunct2, THEN conjunct2, THEN conjunct2, THEN mp, OF hyp]
  note inst' = rename_destroys_and_recreates
         [of example_env example_view file_archived "''events/a.md''" "''events''" "''events''"
             None standup]
  note r2 = inst' [THEN conjunct2, THEN conjunct2, THEN conjunct2, THEN conjunct1, THEN mp, OF h9]
  show ?thesis
  proof (intro conjI)
    show "eventsWithId (onRename example_env example_view (File file_b) ''events/a.md'')
            ''events/a.md'' = []"
      by (rule r1 [THEN conjunct1])
    show "eventsWithId (onRename example_env example_view (File file_b) ''events/a.md'')
            (path file_b)
          = [standup\<lparr>event_id := ''events/b.md'', color := Some ''#ff0000'',
                      textColor := Some ''#ffffff''\<rparr>]"
      using r1 [THEN conjunct2, THEN conjunct1] unfolding ho .
    show "eventsWithId (onRename example_env example_view (File file_archived) ''events/a.md'')
            ''events/a.md'' = tl (eventsWithId example_view ''events/a.md'')"
      by (rule r2)
  qed (rule h1 h2 h3 h4 h5 h6 h7 h8)+
qed



text \<open>
  C5 on the code. The lookup of \<open>onCacheUpdate\<close> compares strings, not directories:
  \<open>"events2/a.md".startsWith("events")\<close> holds. The document \<open>events2/a.md\<close> lies
  outside the directory \<open>events\<close> of the only Local source configured, and a
  metadata-changed notification for it adds its event to the model, in that source's
  colour.
\<close>

theorem sibling_directory_event_is_added:
  "calendarSources (settings example_env)
     = [GCal ''team@example.org'' None, Local ''events'' (Some ''#ff0000'')] \<and>
   \<not> lies_within_directory ''events'' (path file_sibling) \<and>
   onCacheUpdate example_env \<lparr>calendar = Some [], calendarEl_textContent = None\<rparr> file_sibling
     = \<lparr>calendar = Some [standup\<lparr>event_id := ''events2/a.md'', color := Some ''#ff0000'',
                                     textColor := Some ''#ffffff''\<rparr>],
        calendarEl_textContent = None\<rparr>"
  by (simp add: example_env_def lies_within_directory_def file_sibling_def onCacheUpdate_def
      getEventInputFromFile_def example_cache_def getEventById_def addEvent_def
      spread_over_defaults_def js_or_def standup_def example_parser_def)

text \<open>
  C6 on the code. \<open>sources\<close> is an array, so \<open>!sources\<close> is false whatever the source
  builds returned: \<open>onOpen\<close> never writes the error text. With one Local source whose
  directory is missing (its build returns null) the view renders a calendar over no
  sources at all.
\<close>

theorem missing_directory_renders_empty_calendar:
  "calendarEl_textContent (onOpen getEventSourceFromLocalSource renderCalendar env this) = None \<and>
   onOpen (\<lambda>source recursive. None) renderCalendar
     \<lparr>settings = \<lparr>calendarSources = [Local ''missing'' None], recursiveLocal = False\<rparr>,
      metadataCache = example_cache, interactive_accent = ''#7b6cd9'',
      text_on_accent = ''#ffffff'', parseEvent = example_parser\<rparr> this
     = this\<lparr>calendar := Some (renderCalendar []), calendarEl_textContent := None\<rparr>"
  by (simp add: onOpen_def js_not_array_def Let_def List.map_filter_simps)

end
